theory Spec2Isabelle
  imports Complex_Main "HOL-Library.Word" "HOL-Library.Sublist"
begin

section \<open>JavaScript strings and values\<close>

text \<open>
  A JavaScript string is a sequence of UTF-16 code units. ASCII literals of the source
  are written with \<open>str\<close>; the icon glyphs are written out as their code units.
\<close>

type_synonym code_unit = "16 word"
type_synonym js_string = "code_unit list"

definition str :: "string \<Rightarrow> js_string" where
  "str s = map of_char s"

text \<open>
  \<open>String.prototype.trim\<close> removes, at both ends, the code points of ECMAScript's
  WhiteSpace and LineTerminator productions: TAB, LF, VT, FF, CR, SPACE, NBSP, the other
  members of Unicode's Space_Separator category, LS, PS and the byte order mark.
\<close>

definition is_white_space :: "code_unit \<Rightarrow> bool" where
  "is_white_space c \<longleftrightarrow>
     c \<in> set [0x0009, 0x000A, 0x000B, 0x000C, 0x000D, 0x0020, 0x00A0, 0x1680,
              0x2000, 0x2001, 0x2002, 0x2003, 0x2004, 0x2005, 0x2006, 0x2007,
              0x2008, 0x2009, 0x200A, 0x2028, 0x2029, 0x202F, 0x205F, 0x3000, 0xFEFF]"

definition trim :: "js_string \<Rightarrow> js_string" where
  "trim s = rev (dropWhile is_white_space (rev (dropWhile is_white_space s)))"

text \<open>
  The decimal rendering of a non-negative integer, as a template literal produces it
  for \<open>response.status\<close>.
\<close>

fun number_to_string :: "nat \<Rightarrow> js_string" where
  "number_to_string n =
     (if n < 10 then [of_nat (48 + n)]
      else number_to_string (n div 10) @ [of_nat (48 + n mod 10)])"

declare number_to_string.simps [simp del]

text \<open>
  A JavaScript number is an IEEE double: a finite value, held here as the exact real it
  stands for (the two zeros are not told apart), an infinity, or NaN.
\<close>

datatype js_number = Finite real | PosInfinity | NegInfinity | NaN

text \<open>
  The values the component handles. \<open>JInherited k\<close> is the built-in function or object
  that \<open>Object.prototype\<close> holds under the name \<open>k\<close>. An object is the list of its
  own properties, each key listed once.
\<close>

datatype js_value =
    JUndefined
  | JNull
  | JBool bool
  | JNumber js_number
  | JString js_string
  | JArray "js_value list"
  | JObject "(js_string \<times> js_value) list"
  | JInherited js_string

fun truthy :: "js_value \<Rightarrow> bool" where
  "truthy JUndefined = False"
| "truthy JNull = False"
| "truthy (JBool b) = b"
| "truthy (JNumber n) = (n \<noteq> Finite 0 \<and> n \<noteq> NaN)"
| "truthy (JString s) = (s \<noteq> [])"
| "truthy (JArray vs) = True"
| "truthy (JObject ps) = True"
| "truthy (JInherited k) = True"

text \<open>
  Reading \<open>obj[k]\<close> on a plain object (an object literal, or an object built by
  \<open>JSON.parse\<close>): an own property first, then the properties every plain object
  inherits from \<open>Object.prototype\<close>.
\<close>

definition object_prototype_keys :: "js_string list" where
  "object_prototype_keys = map str
     [''constructor'', ''hasOwnProperty'', ''isPrototypeOf'', ''propertyIsEnumerable'',
      ''toLocaleString'', ''toString'', ''valueOf'', ''__proto__'',
      ''__defineGetter__'', ''__defineSetter__'', ''__lookupGetter__'', ''__lookupSetter__'']"

definition get_property :: "(js_string \<times> js_value) list \<Rightarrow> js_string \<Rightarrow> js_value" where
  "get_property props k =
     (case map_of props k of
        Some v \<Rightarrow> v
      | None \<Rightarrow> if k \<in> set object_prototype_keys then JInherited k else JUndefined)"

text \<open>
  Reading a member of the parsed response, \<open>data.recommendations\<close> and
  \<open>data.weather_data\<close>: on \<open>null\<close> and \<open>undefined\<close> the read throws a TypeError, whose
  message \<open>msg\<close> is the engine's; on a primitive or an array neither of the two names
  is defined, and the read gives \<open>undefined\<close>.
\<close>

fun read_member :: "js_string \<Rightarrow> js_value \<Rightarrow> js_string \<Rightarrow> js_string + js_value" where
  "read_member msg JUndefined k = Inl msg"
| "read_member msg JNull k = Inl msg"
| "read_member msg (JObject props) k = Inr (get_property props k)"
| "read_member msg v k = Inr JUndefined"

section \<open>Component state\<close>

record coords =
  lat :: real
  lng :: real

record state =
  location :: js_string
  coordinates :: coords
  selectedCoords :: "coords option"
  recommendations :: js_value
  weatherData :: js_value
  loading :: bool
  error :: js_string
  inputMethod :: js_string

definition initial_state :: state where
  "initial_state =
     \<lparr>location = [], coordinates = \<lparr>lat = 6.8213291, lng = 80.0415729\<rparr>,
      selectedCoords = None, recommendations = JNull, weatherData = JNull,
      loading = False, error = [], inputMethod = str ''location''\<rparr>"

section \<open>Requests, responses and effects\<close>

text \<open>
  The request body is the object handed to \<open>JSON.stringify\<close>:
  \<open>CoordsBody lat lon threshold\<close> or \<open>LocationBody location threshold\<close>.
\<close>

datatype request_body =
    CoordsBody real real real
  | LocationBody js_string real

record request =
  url :: js_string
  http_method :: js_string
  content_type :: js_string
  body :: request_body

text \<open>
  What the network does with a request: \<open>fetch\<close> rejects with an error message, or it
  resolves to a response with a status, whose \<open>json()\<close> in turn rejects or resolves to
  a value. \<open>response.ok\<close> is true for the statuses 200 to 299.
\<close>

datatype json_outcome = JsonRejected js_string | JsonResolved js_value

record response =
  status :: nat
  json_result :: json_outcome

datatype fetch_outcome = FetchRejected js_string | FetchResolved response

record runtime =
  fetch_result :: fetch_outcome
  nullish_read_message :: js_string

definition response_ok :: "response \<Rightarrow> bool" where
  "response_ok r \<longleftrightarrow> 200 \<le> status r \<and> status r \<le> 299"

text \<open>
  A handler is modelled by the sequence of calls it makes, in order: the state setters,
  \<open>fetch\<close>, \<open>response.json()\<close> and \<open>console.error\<close>.
\<close>

datatype effect =
    SetLocation js_string
  | SetCoordinates coords
  | SetSelectedCoords "coords option"
  | SetRecommendations js_value
  | SetWeatherData js_value
  | SetLoading bool
  | SetError js_string
  | SetInputMethod js_string
  | Fetch request
  | ResponseJson
  | ConsoleError js_string

fun apply_effect :: "effect \<Rightarrow> state \<Rightarrow> state" where
  "apply_effect (SetLocation v) s = s\<lparr>location := v\<rparr>"
| "apply_effect (SetCoordinates c) s = s\<lparr>coordinates := c\<rparr>"
| "apply_effect (SetSelectedCoords c) s = s\<lparr>selectedCoords := c\<rparr>"
| "apply_effect (SetRecommendations v) s = s\<lparr>recommendations := v\<rparr>"
| "apply_effect (SetWeatherData v) s = s\<lparr>weatherData := v\<rparr>"
| "apply_effect (SetLoading b) s = s\<lparr>loading := b\<rparr>"
| "apply_effect (SetError m) s = s\<lparr>error := m\<rparr>"
| "apply_effect (SetInputMethod m) s = s\<lparr>inputMethod := m\<rparr>"
| "apply_effect (Fetch q) s = s"
| "apply_effect ResponseJson s = s"
| "apply_effect (ConsoleError m) s = s"

definition run :: "effect list \<Rightarrow> state \<Rightarrow> state" where
  "run es s = fold apply_effect es s"

fun sent_requests :: "effect list \<Rightarrow> request list" where
  "sent_requests [] = []"
| "sent_requests (Fetch q # es) = q # sent_requests es"
| "sent_requests (e # es) = sent_requests es"

section \<open>The submit handler\<close>

definition validation_message :: js_string where
  "validation_message = str ''Please enter a location or select a point on the map''"

definition requestBody :: "state \<Rightarrow> request_body" where
  "requestBody s =
     (case selectedCoords s of
        Some c \<Rightarrow>
          if inputMethod s = str ''map'' then CoordsBody (lat c) (lng c) 0.5
          else LocationBody (trim (location s)) 0.5
      | None \<Rightarrow> LocationBody (trim (location s)) 0.5)"

definition recommend_request :: "state \<Rightarrow> request" where
  "recommend_request s =
     \<lparr>url = str ''http://localhost:8000/recommend-from-location'',
      http_method = str ''POST'',
      content_type = str ''application/json'',
      body = requestBody s\<rparr>"

text \<open>
  The \<open>try\<close> block: the calls it makes and, when it throws, the message of the error.
\<close>

definition try_block :: "runtime \<Rightarrow> state \<Rightarrow> effect list \<times> js_string option" where
  "try_block rt s =
     (case fetch_result rt of
        FetchRejected m \<Rightarrow> ([Fetch (recommend_request s)], Some m)
      | FetchResolved r \<Rightarrow>
          if \<not> response_ok r then
            ([Fetch (recommend_request s)],
             Some (str ''HTTP error! status: '' @ number_to_string (status r)))
          else
            (case json_result r of
               JsonRejected m \<Rightarrow> ([Fetch (recommend_request s), ResponseJson], Some m)
             | JsonResolved data \<Rightarrow>
                 (case read_member (nullish_read_message rt) data (str ''recommendations'') of
                    Inl m \<Rightarrow> ([Fetch (recommend_request s), ResponseJson], Some m)
                  | Inr recs \<Rightarrow>
                      (case read_member (nullish_read_message rt) data (str ''weather_data'') of
                         Inl m \<Rightarrow>
                           ([Fetch (recommend_request s), ResponseJson,
                             SetRecommendations recs], Some m)
                       | Inr w \<Rightarrow>
                           ([Fetch (recommend_request s), ResponseJson,
                             SetRecommendations recs, SetWeatherData w], None)))))"

definition catch_block :: "js_string \<Rightarrow> effect list" where
  "catch_block m = [SetError (str ''Failed to get recommendations: '' @ m), ConsoleError m]"

definition finally_block :: "effect list" where
  "finally_block = [SetLoading False]"

definition handleLocationSubmit :: "runtime \<Rightarrow> state \<Rightarrow> effect list" where
  "handleLocationSubmit rt s =
     (if trim (location s) = [] \<and> selectedCoords s = None then
        [SetError validation_message]
      else
        [SetLoading True, SetError []]
        @ (case try_block rt s of
             (es, None) \<Rightarrow> es
           | (es, Some m) \<Rightarrow> es @ catch_block m)
        @ finally_block)"

section \<open>Event handlers and the rendered controls\<close>

text \<open>
  The text input's \<open>onChange\<close>, the map's click handler and the two buttons of the
  input method toggle.
\<close>

definition onChange :: "js_string \<Rightarrow> effect list" where
  "onChange v = [SetLocation v]"

definition map_click :: "real \<Rightarrow> real \<Rightarrow> effect list" where
  "map_click clat clng =
     [SetSelectedCoords (Some \<lparr>lat = clat, lng = clng\<rparr>),
      SetCoordinates \<lparr>lat = clat, lng = clng\<rparr>]"

definition select_location_method :: "effect list" where
  "select_location_method = [SetInputMethod (str ''location'')]"

definition select_map_method :: "effect list" where
  "select_map_method = [SetInputMethod (str ''map'')]"

text \<open>
  The submit button carries \<open>disabled={loading || (!location.trim() && !selectedCoords)}\<close>,
  and a disabled button does not deliver clicks. The text input is rendered in location
  mode only; its \<open>onKeyPress\<close> calls the submit handler when the key is Enter.
\<close>

definition submit_button_disabled :: "state \<Rightarrow> bool" where
  "submit_button_disabled s \<longleftrightarrow>
     loading s \<or> (trim (location s) = [] \<and> selectedCoords s = None)"

definition submit_button_click :: "runtime \<Rightarrow> state \<Rightarrow> effect list" where
  "submit_button_click rt s =
     (if submit_button_disabled s then [] else handleLocationSubmit rt s)"

definition location_input_rendered :: "state \<Rightarrow> bool" where
  "location_input_rendered s \<longleftrightarrow> inputMethod s = str ''location''"

definition onKeyPress :: "runtime \<Rightarrow> js_string \<Rightarrow> state \<Rightarrow> effect list" where
  "onKeyPress rt key s = (if key = str ''Enter'' then handleLocationSubmit rt s else [])"

section \<open>Presentation helpers\<close>

definition recommendation_icons :: "(js_string \<times> js_value) list" where
  "recommendation_icons =
     [(str ''outerwear'', JString [0xD83E, 0xDDE5]),
      (str ''sweater'', JString [0xD83E, 0xDDF6]),
      (str ''shorts'', JString [0xD83E, 0xDE73]),
      (str ''boots'', JString [0xD83E, 0xDD7E]),
      (str ''hat'', JString [0xD83D, 0xDC52])]"

definition default_recommendation_icon :: js_value where
  "default_recommendation_icon = JString [0xD83D, 0xDC55]"

definition getRecommendationIcon :: "js_string \<Rightarrow> js_value" where
  "getRecommendationIcon item =
     (if truthy (get_property recommendation_icons item)
      then get_property recommendation_icons item
      else default_recommendation_icon)"

definition weather_icons :: "(js_string \<times> js_value) list" where
  "weather_icons =
     [(str ''rain'', JString [0xD83C, 0xDF27, 0xFE0F]),
      (str ''snow'', JString [0x2744, 0xFE0F]),
      (str ''cold'', JString [0xD83E, 0xDD76]),
      (str ''hot'', JString [0xD83D, 0xDD25]),
      (str ''mild'', JString [0xD83C, 0xDF24, 0xFE0F])]"

definition default_weather_icon :: js_value where
  "default_weather_icon = JString [0x2601, 0xFE0F]"

definition getWeatherIcon :: "js_string \<Rightarrow> js_value" where
  "getWeatherIcon condition =
     (if truthy (get_property weather_icons condition)
      then get_property weather_icons condition
      else default_weather_icon)"

text \<open>
  \<open>confidence >= 0.8\<close> converts its left operand to a number and compares doubles. The
  literals \<open>0.8\<close> and \<open>0.6\<close> stand for the doubles nearest to them, which are
  3602879701896397 / 2^52 (just above 8/10) and 5404319552844595 / 2^53 (just below
  6/10). \<open>undefined\<close> converts to NaN, \<open>null\<close> to 0, a boolean to 0 or 1; the conversion
  of a string, an array, an object or a function is the engine's (ToPrimitive, then
  StringToNumber) and is the parameter \<open>conv\<close>. A comparison with NaN is false.
\<close>

definition literal_0_8 :: real where
  "literal_0_8 = 3602879701896397 / 2 ^ 52"

definition literal_0_6 :: real where
  "literal_0_6 = 5404319552844595 / 2 ^ 53"

fun to_number :: "(js_value \<Rightarrow> js_number) \<Rightarrow> js_value \<Rightarrow> js_number" where
  "to_number conv JUndefined = NaN"
| "to_number conv JNull = Finite 0"
| "to_number conv (JBool b) = Finite (if b then 1 else 0)"
| "to_number conv (JNumber n) = n"
| "to_number conv v = conv v"

fun number_ge :: "js_number \<Rightarrow> real \<Rightarrow> bool" where
  "number_ge (Finite r) t = (r \<ge> t)"
| "number_ge PosInfinity t = True"
| "number_ge NegInfinity t = False"
| "number_ge NaN t = False"

definition getConfidenceColor :: "(js_value \<Rightarrow> js_number) \<Rightarrow> js_value \<Rightarrow> js_string" where
  "getConfidenceColor conv confidence =
     (if number_ge (to_number conv confidence) literal_0_8 then str ''text-green-600''
      else if number_ge (to_number conv confidence) literal_0_6 then str ''text-yellow-600''
      else str ''text-red-600'')"

section \<open>Sample inputs\<close>

definition offline :: runtime where
  "offline = \<lparr>fetch_result = FetchRejected (str ''Failed to fetch''),
              nullish_read_message = str ''Cannot read properties of null''\<rparr>"

definition internal_server_error :: response where
  "internal_server_error = \<lparr>status = 500, json_result = JsonResolved JNull\<rparr>"

definition server_error :: runtime where
  "server_error =
     \<lparr>fetch_result = FetchResolved internal_server_error,
      nullish_read_message = str ''Cannot read properties of null''\<rparr>"

definition success :: runtime where
  "success =
     \<lparr>fetch_result = FetchResolved
        \<lparr>status = 200,
         json_result = JsonResolved (JObject
           [(str ''weather_data'', JObject [(str ''condition'', JString (str ''rain''))]),
            (str ''recommendations'', JObject [])])\<rparr>,
      nullish_read_message = str ''Cannot read properties of null''\<rparr>"

definition blank_state :: state where
  "blank_state = run (onChange (str ''   '')) initial_state"

definition map_state :: state where
  "map_state = run (select_map_method @ map_click 6.9 80.0) initial_state"

definition colombo_state :: state where
  "colombo_state = run (onChange (str ''Colombo'')) initial_state"

definition blank_with_pin_state :: state where
  "blank_with_pin_state = run (map_click 6.9 80.0) blank_state"

text \<open>The state once the synchronous part of a submission of "Colombo" has run.\<close>

definition in_flight_state :: state where
  "in_flight_state = run (take 3 (handleLocationSubmit offline colombo_state)) colombo_state"

section \<open>Basic facts about the model\<close>

lemma location_is_not_map: "str ''location'' \<noteq> str ''map''"
  by (simp add: str_def)

lemma str_append: "str (a @ b) = str a @ str b"
  by (simp add: str_def)

lemma sent_requests_append: "sent_requests (xs @ ys) = sent_requests xs @ sent_requests ys"
  by (induction xs rule: sent_requests.induct) simp_all

lemma try_block_requests: "sent_requests (fst (try_block rt s)) = [recommend_request s]"
  by (simp add: try_block_def split: fetch_outcome.split json_outcome.split sum.split)

lemma catch_block_requests: "sent_requests (catch_block m) = []"
  by (simp add: catch_block_def)

lemma accepted_submit_requests:
  assumes "\<not> (trim (location s) = [] \<and> selectedCoords s = None)"
  shows "sent_requests (handleLocationSubmit rt s) = [recommend_request s]"
proof (cases "try_block rt s")
  case (Pair es thrown)
  with try_block_requests [of rt s] have es: "sent_requests es = [recommend_request s]"
    by simp
  show ?thesis
    using assms Pair es
    by (cases thrown)
       (auto simp: handleLocationSubmit_def finally_block_def sent_requests_append
                   catch_block_requests)
qed

text \<open>
  The calls of an accepted submission: the loading flag is raised, the error is cleared and
  the request is sent; the last call lowers the loading flag, and no call in between
  touches the flag or sends a second request.
\<close>

lemma try_block_shape:
  "\<exists>es. fst (try_block rt s) = Fetch (recommend_request s) # es
        \<and> (\<forall>b. SetLoading b \<notin> set es) \<and> sent_requests es = []"
  by (simp add: try_block_def split: fetch_outcome.split json_outcome.split sum.split)

lemma accepted_submit_shape:
  assumes "\<not> (trim (location s) = [] \<and> selectedCoords s = None)"
  shows "\<exists>mid. handleLocationSubmit rt s
                = [SetLoading True, SetError [], Fetch (recommend_request s)] @ mid
                  @ [SetLoading False]
              \<and> (\<forall>b. SetLoading b \<notin> set mid) \<and> sent_requests mid = []"
proof -
  obtain es where es: "fst (try_block rt s) = Fetch (recommend_request s) # es"
    "\<forall>b. SetLoading b \<notin> set es" "sent_requests es = []"
    using try_block_shape by blast
  show ?thesis
  proof (cases "snd (try_block rt s)")
    case None
    with es assms show ?thesis
      by (cases "try_block rt s") (simp add: handleLocationSubmit_def finally_block_def)
  next
    case (Some m)
    with es assms show ?thesis
      by (cases "try_block rt s")
         (simp add: handleLocationSubmit_def finally_block_def catch_block_def
                    sent_requests_append)
  qed
qed

lemma no_loading_setter_keeps:
  "(\<forall>b. SetLoading b \<notin> set es) \<Longrightarrow> loading (run es s) = loading s"
proof (induction es arbitrary: s)
  case Nil
  then show ?case by (simp add: run_def)
next
  case (Cons e es)
  then have "loading (apply_effect e s) = loading s"
    by (cases e) auto
  with Cons show ?case by (simp add: run_def)
qed

lemma bracket_prefix:
  assumes "\<forall>b. SetLoading b \<notin> set rest" and "n \<le> length rest + 2"
  shows "loading (run (take n (SetLoading True # rest @ [SetLoading False])) s')
         = (if n = 0 then loading s' else n < length rest + 2)"
proof (cases n)
  case 0
  then show ?thesis by (simp add: run_def)
next
  case (Suc m)
  show ?thesis
  proof (cases "m \<le> length rest")
    case True
    have "\<forall>b. SetLoading b \<notin> set (take m rest)"
      using assms(1) by (meson in_set_takeD)
    from no_loading_setter_keeps [OF this]
    have "loading (run (take m rest) (s'\<lparr>loading := True\<rparr>)) = True"
      by simp
    with True Suc show ?thesis by (simp add: run_def)
  next
    case False
    with assms(2) Suc have m: "m = Suc (length rest)" by simp
    have "loading (run (SetLoading True # rest @ [SetLoading False]) s') = False"
      by (simp add: run_def)
    with m Suc show ?thesis by simp
  qed
qed

text \<open>
  The two other ways an accepted submission ends: the fetch is rejected, or a response
  with a success status carries an object, whose two members are stored.
\<close>

lemma network_failure_calls:
  assumes "\<not> (trim (location s) = [] \<and> selectedCoords s = None)"
    and "fetch_result rt = FetchRejected m"
  shows "handleLocationSubmit rt s
         = [SetLoading True, SetError [], Fetch (recommend_request s),
            SetError (str ''Failed to get recommendations: '' @ m), ConsoleError m,
            SetLoading False]"
  using assms
  by (simp add: handleLocationSubmit_def try_block_def catch_block_def finally_block_def)

lemma success_calls:
  assumes "\<not> (trim (location s) = [] \<and> selectedCoords s = None)"
    and "fetch_result rt = FetchResolved r" and "response_ok r"
    and "json_result r = JsonResolved (JObject props)"
  shows "handleLocationSubmit rt s
         = [SetLoading True, SetError [], Fetch (recommend_request s), ResponseJson,
            SetRecommendations (get_property props (str ''recommendations'')),
            SetWeatherData (get_property props (str ''weather_data'')),
            SetLoading False]"
  using assms
  by (simp add: handleLocationSubmit_def try_block_def finally_block_def)

text \<open>
  None of the handler's reads depends on the loading flag.
\<close>

lemma recommend_request_ignores_loading:
  "recommend_request (s\<lparr>loading := b\<rparr>) = recommend_request s"
  by (simp add: recommend_request_def requestBody_def split: option.split)

lemma try_block_ignores_loading: "try_block rt (s\<lparr>loading := b\<rparr>) = try_block rt s"
  by (simp add: try_block_def recommend_request_ignores_loading
           split: fetch_outcome.split json_outcome.split sum.split)

lemma handler_ignores_loading:
  "handleLocationSubmit rt (s\<lparr>loading := b\<rparr>) = handleLocationSubmit rt s"
  by (simp add: handleLocationSubmit_def try_block_ignores_loading)

subsection \<open>The sample states\<close>

lemma colombo_is_not_blank: "trim (location colombo_state) \<noteq> []"
  by (simp add: colombo_state_def run_def onChange_def trim_def str_def is_white_space_def)

lemma accepted_state: "\<not> (trim (location colombo_state) = [] \<and> selectedCoords colombo_state = None)"
  by (simp add: colombo_state_def run_def onChange_def trim_def str_def is_white_space_def)

lemma in_flight_state_eq: "in_flight_state = colombo_state\<lparr>loading := True, error := []\<rparr>"
  by (simp add: in_flight_state_def handleLocationSubmit_def try_block_def offline_def
                run_def colombo_is_not_blank)

lemma accepted_in_flight:
  "\<not> (trim (location in_flight_state) = [] \<and> selectedCoords in_flight_state = None)"
  by (simp add: in_flight_state_eq colombo_is_not_blank)

lemma loading_in_flight: "loading in_flight_state"
  by (simp add: in_flight_state_eq)

section \<open>Validation\<close>

text \<open>
  C1. In every state whose trimmed location text is empty and in which no coordinates
  are selected, the submit handler makes exactly one call: it sets the error to the
  validation message. It sends no request, and the error state afterwards is that
  message, whatever state the call is applied to.
\<close>

theorem submit_without_location_is_rejected:
  assumes "trim (location s) = []" and "selectedCoords s = None"
  shows "handleLocationSubmit rt s = [SetError validation_message]
       \<and> sent_requests (handleLocationSubmit rt s) = []
       \<and> error (run (handleLocationSubmit rt s) s') = validation_message
       \<and> validation_message = str ''Please enter a location or select a point on the map''"
  using assms by (simp add: handleLocationSubmit_def run_def validation_message_def)

theorem submit_without_location_is_rejected_witness:
  "trim (location blank_state) = [] \<and> selectedCoords blank_state = None
   \<and> handleLocationSubmit offline blank_state = [SetError validation_message]
   \<and> sent_requests (handleLocationSubmit offline blank_state) = []
   \<and> error (run (handleLocationSubmit offline blank_state) blank_state) = validation_message"
proof -
  have h1: "trim (location blank_state) = []"
    by (simp add: blank_state_def onChange_def run_def trim_def str_def is_white_space_def)
  have h2: "selectedCoords blank_state = None"
    by (simp add: blank_state_def onChange_def run_def initial_state_def)
  show ?thesis
    using h1 h2
      submit_without_location_is_rejected [OF h1 h2, where rt = offline and s' = blank_state]
    by blast
qed

section \<open>The request body\<close>

text \<open>
  C2. When the input method is "map" and coordinates are selected, the submit handler
  sends one request, whose body is \<open>{lat, lon, threshold: 0.5}\<close> with the selected
  values. In particular, in map mode a click on the map at \<open>(a, b)\<close> followed by
  submit sends \<open>{lat: a, lon: b, threshold: 0.5}\<close>, as for the click at (6.9, 80.0).
\<close>

theorem map_mode_sends_selected_coordinates:
  assumes "inputMethod s = str ''map''"
  shows "(selectedCoords s = Some c \<longrightarrow>
            map body (sent_requests (handleLocationSubmit rt s))
            = [CoordsBody (lat c) (lng c) 0.5])
       \<and> map body (sent_requests (handleLocationSubmit rt (run (map_click a b) s)))
            = [CoordsBody a b 0.5]"
proof -
  have sel: "map body (sent_requests (handleLocationSubmit rt s'))
             = [CoordsBody (lat c') (lng c') 0.5]"
    if "inputMethod s' = str ''map''" and "selectedCoords s' = Some c'" for s' c'
    using that
    by (simp add: accepted_submit_requests recommend_request_def requestBody_def)
  have "inputMethod (run (map_click a b) s) = str ''map''"
    and "selectedCoords (run (map_click a b) s) = Some \<lparr>lat = a, lng = b\<rparr>"
    using assms by (simp_all add: run_def map_click_def)
  from sel [OF this] sel [OF assms] show ?thesis
    by simp
qed

theorem map_mode_sends_selected_coordinates_witness:
  "inputMethod map_state = str ''map''
   \<and> selectedCoords map_state = Some \<lparr>lat = 6.9, lng = 80.0\<rparr>
   \<and> map body (sent_requests (handleLocationSubmit offline map_state))
       = [CoordsBody 6.9 80.0 0.5]"
proof -
  have h1: "inputMethod map_state = str ''map''"
    by (simp add: map_state_def run_def select_map_method_def map_click_def)
  have h2: "selectedCoords map_state = Some \<lparr>lat = 6.9, lng = 80.0\<rparr>"
    by (simp add: map_state_def run_def select_map_method_def map_click_def)
  show ?thesis
    using h1 h2
      map_mode_sends_selected_coordinates
        [OF h1, where c = "\<lparr>lat = 6.9, lng = 80.0\<rparr>" and rt = offline]
    by simp
qed

text \<open>
  C3. When the input method is "location" and the trimmed text is not empty, the submit
  handler sends one request, whose body is \<open>{location: <trimmed text>, threshold: 0.5}\<close>,
  whether or not coordinates are selected.
\<close>

theorem location_mode_sends_trimmed_text:
  assumes "inputMethod s = str ''location''" and "trim (location s) \<noteq> []"
  shows "map body (sent_requests (handleLocationSubmit rt s))
         = [LocationBody (trim (location s)) 0.5]"
  using assms
  by (simp add: accepted_submit_requests recommend_request_def requestBody_def
                location_is_not_map split: option.split)

theorem location_mode_sends_trimmed_text_witness:
  "inputMethod colombo_state = str ''location''
   \<and> trim (location colombo_state) \<noteq> []
   \<and> map body (sent_requests (handleLocationSubmit offline colombo_state))
       = [LocationBody (str ''Colombo'') 0.5]"
proof -
  have h1: "inputMethod colombo_state = str ''location''"
    by (simp add: colombo_state_def run_def onChange_def initial_state_def)
  have tr: "trim (location colombo_state) = str ''Colombo''"
    by (simp add: colombo_state_def run_def onChange_def trim_def str_def is_white_space_def)
  have h2: "trim (location colombo_state) \<noteq> []"
    by (simp add: tr) (simp add: str_def)
  show ?thesis
    using h1 h2 tr location_mode_sends_trimmed_text [OF h1 h2, where rt = offline]
    by simp
qed

text \<open>
  C10. When the input method is "location", the trimmed text is empty and coordinates
  were selected on the map, submit passes validation and sends one request, whose body is
  \<open>{location: "", threshold: 0.5}\<close>: the selected coordinates are not used.
\<close>

theorem location_mode_with_pin_sends_empty_text:
  assumes "inputMethod s = str ''location''" and "trim (location s) = []"
    and "selectedCoords s = Some c"
  shows "handleLocationSubmit rt s \<noteq> [SetError validation_message]
       \<and> map body (sent_requests (handleLocationSubmit rt s)) = [LocationBody [] 0.5]"
proof -
  have sent: "sent_requests (handleLocationSubmit rt s) = [recommend_request s]"
    using assms by (simp add: accepted_submit_requests)
  have "sent_requests [SetError validation_message] = []"
    by simp
  with sent have "handleLocationSubmit rt s \<noteq> [SetError validation_message]"
    by force
  moreover have "body (recommend_request s) = LocationBody [] 0.5"
    using assms by (simp add: recommend_request_def requestBody_def location_is_not_map)
  ultimately show ?thesis
    using sent by simp
qed

theorem location_mode_with_pin_sends_empty_text_witness:
  "inputMethod blank_with_pin_state = str ''location''
   \<and> trim (location blank_with_pin_state) = []
   \<and> selectedCoords blank_with_pin_state = Some \<lparr>lat = 6.9, lng = 80.0\<rparr>
   \<and> handleLocationSubmit offline blank_with_pin_state \<noteq> [SetError validation_message]
   \<and> map body (sent_requests (handleLocationSubmit offline blank_with_pin_state))
       = [LocationBody [] 0.5]"
proof -
  have h1: "inputMethod blank_with_pin_state = str ''location''"
    by (simp add: blank_with_pin_state_def blank_state_def run_def onChange_def
                  map_click_def initial_state_def)
  have h2: "trim (location blank_with_pin_state) = []"
    by (simp add: blank_with_pin_state_def blank_state_def run_def onChange_def
                  map_click_def trim_def str_def is_white_space_def)
  have h3: "selectedCoords blank_with_pin_state = Some \<lparr>lat = 6.9, lng = 80.0\<rparr>"
    by (simp add: blank_with_pin_state_def blank_state_def run_def onChange_def map_click_def)
  show ?thesis
    using h1 h2 h3 location_mode_with_pin_sends_empty_text [OF h1 h2 h3, where rt = offline]
    by blast
qed

section \<open>Errors\<close>

text \<open>
  C4. When an accepted submission gets a response whose status is not a success status,
  the handler sets the error to "Failed to get recommendations: HTTP error! status: "
  followed by the status in decimal, so the message contains the status code; it never
  calls \<open>response.json()\<close>; and the recommendations and the weather data are what they
  were before.
\<close>

theorem http_error_status_is_reported:
  assumes "\<not> (trim (location s) = [] \<and> selectedCoords s = None)"
    and "fetch_result rt = FetchResolved r" and "\<not> response_ok r"
  shows "handleLocationSubmit rt s
         = [SetLoading True, SetError [], Fetch (recommend_request s),
            SetError (str ''Failed to get recommendations: HTTP error! status: ''
                      @ number_to_string (status r)),
            ConsoleError (str ''HTTP error! status: '' @ number_to_string (status r)),
            SetLoading False]
       \<and> error (run (handleLocationSubmit rt s) s')
         = str ''Failed to get recommendations: HTTP error! status: ''
           @ number_to_string (status r)
       \<and> sublist (number_to_string (status r)) (error (run (handleLocationSubmit rt s) s'))
       \<and> ResponseJson \<notin> set (handleLocationSubmit rt s)
       \<and> recommendations (run (handleLocationSubmit rt s) s') = recommendations s'
       \<and> weatherData (run (handleLocationSubmit rt s) s') = weatherData s'"
proof -
  have T: "handleLocationSubmit rt s
         = [SetLoading True, SetError [], Fetch (recommend_request s),
            SetError (str ''Failed to get recommendations: HTTP error! status: ''
                      @ number_to_string (status r)),
            ConsoleError (str ''HTTP error! status: '' @ number_to_string (status r)),
            SetLoading False]"
    using assms
    by (simp add: handleLocationSubmit_def try_block_def catch_block_def finally_block_def
                  str_append [symmetric])
  have "sublist (number_to_string (status r))
          (str ''Failed to get recommendations: HTTP error! status: ''
           @ number_to_string (status r))"
    by (rule suffix_imp_sublist) (rule suffixI, rule refl)
  with T show ?thesis
    by (simp add: run_def)
qed

theorem http_error_status_is_reported_witness:
  "\<not> (trim (location colombo_state) = [] \<and> selectedCoords colombo_state = None)
   \<and> fetch_result server_error = FetchResolved internal_server_error
   \<and> \<not> response_ok internal_server_error
   \<and> error (run (handleLocationSubmit server_error colombo_state) colombo_state)
       = str ''Failed to get recommendations: HTTP error! status: 500''
   \<and> sublist (str ''500'')
        (error (run (handleLocationSubmit server_error colombo_state) colombo_state))
   \<and> recommendations (run (handleLocationSubmit server_error colombo_state) colombo_state)
       = JNull"
proof -
  have h2: "fetch_result server_error = FetchResolved internal_server_error"
    by (simp add: server_error_def)
  have h3: "\<not> response_ok internal_server_error"
    by (simp add: response_ok_def internal_server_error_def)
  have n: "number_to_string (status internal_server_error) = str ''500''"
    by (simp add: internal_server_error_def number_to_string.simps str_def)
  have r0: "recommendations colombo_state = JNull"
    by (simp add: colombo_state_def run_def onChange_def initial_state_def)
  note main = http_error_status_is_reported [OF accepted_state h2 h3, of colombo_state]
  from main
  have "error (run (handleLocationSubmit server_error colombo_state) colombo_state)
        = str ''Failed to get recommendations: HTTP error! status: ''
          @ number_to_string (status internal_server_error)"
    by blast
  then have e: "error (run (handleLocationSubmit server_error colombo_state) colombo_state)
        = str ''Failed to get recommendations: HTTP error! status: 500''"
    by (simp add: n str_append [symmetric])
  from main
  have "sublist (number_to_string (status internal_server_error))
          (error (run (handleLocationSubmit server_error colombo_state) colombo_state))"
    by blast
  then have s: "sublist (str ''500'')
          (error (run (handleLocationSubmit server_error colombo_state) colombo_state))"
    by (simp only: n)
  from main
  have "recommendations (run (handleLocationSubmit server_error colombo_state) colombo_state)
        = recommendations colombo_state"
    by blast
  with r0 have r: "recommendations
        (run (handleLocationSubmit server_error colombo_state) colombo_state) = JNull"
    by simp
  from accepted_state h2 h3 e s r show ?thesis
    by blast
qed

text \<open>
  C8. A submission never leaves an earlier error message in place. When validation
  fails, the error is the validation message. Otherwise the first three calls are
  \<open>setLoading(true)\<close>, \<open>setError('')\<close> and the request, so the error is empty when the
  request is sent. In both cases the error after the handler has finished does not depend
  on the error before it.
\<close>

theorem submit_replaces_previous_error:
  "(trim (location s) = [] \<and> selectedCoords s = None \<longrightarrow>
      handleLocationSubmit rt s = [SetError validation_message]
      \<and> error (run (handleLocationSubmit rt s) s') = validation_message)
   \<and> (\<not> (trim (location s) = [] \<and> selectedCoords s = None) \<longrightarrow>
      take 3 (handleLocationSubmit rt s)
      = [SetLoading True, SetError [], Fetch (recommend_request s)]
      \<and> error (run (take 3 (handleLocationSubmit rt s)) s') = [])
   \<and> error (run (handleLocationSubmit rt s) s') = error (run (handleLocationSubmit rt s) s'')"
proof (cases "trim (location s) = [] \<and> selectedCoords s = None")
  case True
  then show ?thesis
    by (simp add: handleLocationSubmit_def run_def)
next
  case False
  then obtain mid where T: "handleLocationSubmit rt s
      = [SetLoading True, SetError [], Fetch (recommend_request s)] @ mid @ [SetLoading False]"
    using accepted_submit_shape by blast
  have indep: "error (run es a) = error (run es b)" if "error a = error b" for es a b
    using that
  proof (induction es arbitrary: a b)
    case Nil
    then show ?case by (simp add: run_def)
  next
    case (Cons e es)
    from Cons.prems have "error (apply_effect e a) = error (apply_effect e b)"
      by (cases e) simp_all
    from Cons.IH [OF this] show ?case by (simp add: run_def)
  qed
  have "error (run (mid @ [SetLoading False]) (a\<lparr>loading := True, error := []\<rparr>))
        = error (run (mid @ [SetLoading False]) (b\<lparr>loading := True, error := []\<rparr>))" for a b
    by (rule indep) simp
  then show ?thesis
    using False by (simp add: T run_def)
qed

theorem submit_replaces_previous_error_witness:
  "trim (location blank_state) = [] \<and> selectedCoords blank_state = None
   \<and> error (run (handleLocationSubmit offline blank_state) (blank_state\<lparr>error := str ''old''\<rparr>))
       = validation_message
   \<and> \<not> (trim (location colombo_state) = [] \<and> selectedCoords colombo_state = None)
   \<and> error (run (take 3 (handleLocationSubmit offline colombo_state))
               (colombo_state\<lparr>error := str ''old''\<rparr>)) = []"
proof -
  have h1: "trim (location blank_state) = [] \<and> selectedCoords blank_state = None"
    by (simp add: blank_state_def onChange_def run_def trim_def str_def is_white_space_def
                  initial_state_def)
  from submit_replaces_previous_error
         [of blank_state offline "blank_state\<lparr>error := str ''old''\<rparr>" blank_state] h1
  have a: "error (run (handleLocationSubmit offline blank_state)
                   (blank_state\<lparr>error := str ''old''\<rparr>)) = validation_message"
    by blast
  from submit_replaces_previous_error
         [of colombo_state offline "colombo_state\<lparr>error := str ''old''\<rparr>" colombo_state]
       accepted_state
  have b: "error (run (take 3 (handleLocationSubmit offline colombo_state))
               (colombo_state\<lparr>error := str ''old''\<rparr>)) = []"
    by blast
  from h1 a accepted_state b show ?thesis by blast
qed

section \<open>The loading flag\<close>

text \<open>
  C5. An accepted submission raises the loading flag in its first call, before the
  request is sent, and lowers it in its last call, whatever the network does: \<open>rt\<close>
  ranges over a rejected fetch, a response with any status, and a body that parses or
  does not. No call in between touches the flag. So, when the calls of the handler run
  with no call of another submission between them, the flag is true after every call but
  the last, and false after the last.
\<close>

theorem loading_brackets_the_request:
  assumes "\<not> (trim (location s) = [] \<and> selectedCoords s = None)"
  shows "(\<exists>mid. handleLocationSubmit rt s
                 = [SetLoading True, SetError [], Fetch (recommend_request s)] @ mid
                   @ [SetLoading False]
               \<and> (\<forall>b. SetLoading b \<notin> set mid) \<and> sent_requests mid = [])
       \<and> (\<forall>n \<le> length (handleLocationSubmit rt s).
            loading (run (take n (handleLocationSubmit rt s)) s')
            = (if n = 0 then loading s' else n < length (handleLocationSubmit rt s)))"
proof -
  obtain mid where T: "handleLocationSubmit rt s
      = [SetLoading True, SetError [], Fetch (recommend_request s)] @ mid @ [SetLoading False]"
    and mid: "\<forall>b. SetLoading b \<notin> set mid" "sent_requests mid = []"
    using accepted_submit_shape [OF assms] by blast
  define rest where "rest = SetError [] # Fetch (recommend_request s) # mid"
  have T': "handleLocationSubmit rt s = SetLoading True # rest @ [SetLoading False]"
    by (simp add: T rest_def)
  have rest: "\<forall>b. SetLoading b \<notin> set rest"
    using mid(1) by (simp add: rest_def)
  have len: "length (handleLocationSubmit rt s) = length rest + 2"
    by (simp add: T')
  have "loading (run (take n (handleLocationSubmit rt s)) s')
        = (if n = 0 then loading s' else n < length (handleLocationSubmit rt s))"
    if "n \<le> length (handleLocationSubmit rt s)" for n
    using bracket_prefix [OF rest, of n s'] that by (simp add: T')
  with T mid show ?thesis by blast
qed

theorem loading_brackets_the_request_witness:
  "\<not> (trim (location colombo_state) = [] \<and> selectedCoords colombo_state = None)
   \<and> length (handleLocationSubmit success colombo_state) = 7
   \<and> \<not> loading colombo_state
   \<and> loading (run (take 1 (handleLocationSubmit success colombo_state)) colombo_state)
   \<and> loading (run (take 6 (handleLocationSubmit success colombo_state)) colombo_state)
   \<and> \<not> loading (run (take 7 (handleLocationSubmit success colombo_state)) colombo_state)"
proof -
  have len: "length (handleLocationSubmit success colombo_state) = 7"
    using accepted_state
    by (simp add: handleLocationSubmit_def try_block_def success_def response_ok_def
                  get_property_def finally_block_def)
  have idle: "\<not> loading colombo_state"
    by (simp add: colombo_state_def run_def onChange_def initial_state_def)
  from loading_brackets_the_request [OF accepted_state, of success colombo_state]
  have "\<forall>n \<le> length (handleLocationSubmit success colombo_state).
          loading (run (take n (handleLocationSubmit success colombo_state)) colombo_state)
          = (if n = 0 then loading colombo_state
             else n < length (handleLocationSubmit success colombo_state))"
    by blast
  then have "\<forall>n \<le> 7. loading (run (take n (handleLocationSubmit success colombo_state)) colombo_state)
          = (if n = 0 then loading colombo_state else n < 7)"
    by (simp only: len)
  then have "loading (run (take 1 (handleLocationSubmit success colombo_state)) colombo_state)"
    and "loading (run (take 6 (handleLocationSubmit success colombo_state)) colombo_state)"
    and "\<not> loading (run (take 7 (handleLocationSubmit success colombo_state)) colombo_state)"
    by simp_all
  with accepted_state len idle show ?thesis by blast
qed

text \<open>
  The statement that the flag is true from an accepted submission to its outcome fails
  when two submissions overlap. While the first request is in flight the Enter key of the
  text input starts a second submission; the first fetch is then rejected, and the last
  call of the first handler lowers the flag while the second request has not been
  answered: the four calls that follow its response are still to come.
\<close>

theorem loading_drops_under_overlapping_submissions_counterexample:
  "location_input_rendered in_flight_state
   \<and> in_flight_state = run (take 3 (handleLocationSubmit offline colombo_state)) colombo_state
   \<and> sent_requests
        (take 3 (handleLocationSubmit offline colombo_state)
         @ take 3 (onKeyPress success (str ''Enter'') in_flight_state)
         @ drop 3 (handleLocationSubmit offline colombo_state))
       = [recommend_request colombo_state, recommend_request in_flight_state]
   \<and> drop 3 (onKeyPress success (str ''Enter'') in_flight_state)
       = [ResponseJson, SetRecommendations (JObject []),
          SetWeatherData (JObject [(str ''condition'', JString (str ''rain''))]),
          SetLoading False]
   \<and> \<not> loading
        (run (take 3 (handleLocationSubmit offline colombo_state)
              @ take 3 (onKeyPress success (str ''Enter'') in_flight_state)
              @ drop 3 (handleLocationSubmit offline colombo_state))
           colombo_state)"
proof -
  have A: "handleLocationSubmit offline colombo_state
           = [SetLoading True, SetError [], Fetch (recommend_request colombo_state),
              SetError (str ''Failed to get recommendations: '' @ str ''Failed to fetch''),
              ConsoleError (str ''Failed to fetch''), SetLoading False]"
    by (rule network_failure_calls [OF accepted_state]) (simp add: offline_def)
  have B: "onKeyPress success (str ''Enter'') in_flight_state
           = [SetLoading True, SetError [], Fetch (recommend_request in_flight_state),
              ResponseJson, SetRecommendations (JObject []),
              SetWeatherData (JObject [(str ''condition'', JString (str ''rain''))]),
              SetLoading False]"
    using accepted_in_flight
    by (simp add: onKeyPress_def handleLocationSubmit_def try_block_def finally_block_def
                  success_def response_ok_def get_property_def)
       (simp add: str_def)
  have shown: "location_input_rendered in_flight_state"
    by (simp add: location_input_rendered_def in_flight_state_eq colombo_state_def
                  run_def onChange_def initial_state_def)
  show ?thesis
    by (simp add: A B shown in_flight_state_def [symmetric] run_def)
       (simp add: in_flight_state_def A run_def)
qed

text \<open>
  C6. While the loading flag is true the submit button is disabled, and a click on it
  starts nothing. The submit handler itself does not read the flag: the Enter key of the
  location text input calls it as in any other state, and an accepted second submission
  sends its request.
\<close>

theorem loading_disables_button_not_handler:
  assumes "loading s"
  shows "submit_button_disabled s \<and> submit_button_click rt s = []
       \<and> onKeyPress rt (str ''Enter'') s = handleLocationSubmit rt s
       \<and> handleLocationSubmit rt s = handleLocationSubmit rt (s\<lparr>loading := False\<rparr>)
       \<and> (\<not> (trim (location s) = [] \<and> selectedCoords s = None) \<longrightarrow>
            sent_requests (onKeyPress rt (str ''Enter'') s) = [recommend_request s])"
  using assms
  by (simp add: submit_button_disabled_def submit_button_click_def onKeyPress_def
                accepted_submit_requests handler_ignores_loading)

theorem loading_disables_button_not_handler_witness:
  "loading in_flight_state
   \<and> \<not> (trim (location in_flight_state) = [] \<and> selectedCoords in_flight_state = None)
   \<and> submit_button_disabled in_flight_state
   \<and> submit_button_click offline in_flight_state = []
   \<and> sent_requests (onKeyPress offline (str ''Enter'') in_flight_state)
       = [recommend_request in_flight_state]"
  using loading_in_flight accepted_in_flight
    loading_disables_button_not_handler [OF loading_in_flight, of offline]
  by blast

text \<open>
  The statement that the submit action stays enabled while a request is in flight fails
  for the button: after the synchronous part of a submission of "Colombo" the flag is
  true and the button is disabled.
\<close>

theorem submit_button_disabled_while_loading_counterexample:
  "loading in_flight_state \<and> submit_button_disabled in_flight_state
   \<and> submit_button_click offline in_flight_state = []"
  using loading_in_flight by (simp add: submit_button_disabled_def submit_button_click_def)

section \<open>Text input\<close>

text \<open>
  C7. A text input event with the string \<open>v\<close> stores \<open>v\<close> as it is. The text is
  trimmed where it is used: in location mode the request body built from the stored text
  carries \<open>trim v\<close>.
\<close>

theorem text_input_is_stored_as_typed:
  "location (run (onChange v) s) = v
   \<and> (inputMethod s = str ''location'' \<longrightarrow>
        requestBody (run (onChange v) s) = LocationBody (trim v) 0.5)"
  by (simp add: onChange_def run_def requestBody_def location_is_not_map split: option.split)

theorem text_input_is_stored_as_typed_witness:
  "inputMethod initial_state = str ''location''
   \<and> location (run (onChange (str '' Colombo '')) initial_state) = str '' Colombo ''
   \<and> requestBody (run (onChange (str '' Colombo '')) initial_state)
       = LocationBody (str ''Colombo'') 0.5"
proof -
  have h: "inputMethod initial_state = str ''location''"
    by (simp add: initial_state_def)
  have tr: "trim (str '' Colombo '') = str ''Colombo''"
    by (simp add: trim_def is_white_space_def str_def)
  show ?thesis
    using h text_input_is_stored_as_typed [of "str '' Colombo ''" initial_state]
    by (simp add: tr)
qed

text \<open>
  The statement that the stored text is the trimmed input fails for an input with
  spaces around it.
\<close>

theorem text_input_is_trimmed_counterexample:
  "location (run (onChange (str '' Colombo '')) initial_state) = str '' Colombo ''
   \<and> location (run (onChange (str '' Colombo '')) initial_state) \<noteq> trim (str '' Colombo '')"
  by (simp add: onChange_def run_def trim_def is_white_space_def str_def)

section \<open>Presentation helpers\<close>

text \<open>
  C9. The key "constructor" is in neither icon table, yet neither lookup returns its
  default glyph for it: \<open>icons[item]\<close> finds the property that the table inherits from
  \<open>Object.prototype\<close>, which is truthy, so \<open>||\<close> returns it.
\<close>

theorem inherited_key_bypasses_default_icon:
  "str ''constructor'' \<notin> fst ` set recommendation_icons
   \<and> getRecommendationIcon (str ''constructor'') = JInherited (str ''constructor'')
   \<and> getRecommendationIcon (str ''constructor'') \<noteq> default_recommendation_icon
   \<and> str ''constructor'' \<notin> fst ` set weather_icons
   \<and> getWeatherIcon (str ''constructor'') = JInherited (str ''constructor'')
   \<and> getWeatherIcon (str ''constructor'') \<noteq> default_weather_icon"
  by (simp add: getRecommendationIcon_def getWeatherIcon_def get_property_def
                recommendation_icons_def weather_icons_def object_prototype_keys_def
                default_recommendation_icon_def default_weather_icon_def str_def)

text \<open>
  For every key that is neither in the table nor inherited, both lookups return the
  default glyph, and the confidence colour follows the two thresholds.
\<close>

lemma own_key_missing:
  "k \<notin> fst ` set props \<Longrightarrow> k \<notin> set object_prototype_keys \<Longrightarrow> get_property props k = JUndefined"
  by (simp add: get_property_def map_of_eq_None_iff [THEN iffD2])

lemma unknown_item_gets_default_icon:
  assumes "item \<notin> fst ` set recommendation_icons" and "item \<notin> set object_prototype_keys"
  shows "getRecommendationIcon item = default_recommendation_icon"
  using own_key_missing [OF assms] by (simp add: getRecommendationIcon_def)

lemma unknown_condition_gets_default_icon:
  assumes "condition \<notin> fst ` set weather_icons" and "condition \<notin> set object_prototype_keys"
  shows "getWeatherIcon condition = default_weather_icon"
  using own_key_missing [OF assms] by (simp add: getWeatherIcon_def)

lemma confidence_bands:
  "(getConfidenceColor conv v = str ''text-green-600''
      \<longleftrightarrow> number_ge (to_number conv v) literal_0_8)
   \<and> (getConfidenceColor conv v = str ''text-yellow-600''
      \<longleftrightarrow> number_ge (to_number conv v) literal_0_6
          \<and> \<not> number_ge (to_number conv v) literal_0_8)
   \<and> (getConfidenceColor conv v = str ''text-red-600''
      \<longleftrightarrow> \<not> number_ge (to_number conv v) literal_0_6
          \<and> \<not> number_ge (to_number conv v) literal_0_8)"
  by (auto simp: getConfidenceColor_def str_def)

lemma literal_order: "literal_0_6 < literal_0_8"
  by (simp add: literal_0_6_def literal_0_8_def)

lemma finite_confidence_bands:
  "(getConfidenceColor conv (JNumber (Finite c)) = str ''text-green-600''
      \<longleftrightarrow> c \<ge> literal_0_8)
   \<and> (getConfidenceColor conv (JNumber (Finite c)) = str ''text-yellow-600''
      \<longleftrightarrow> literal_0_6 \<le> c \<and> c < literal_0_8)
   \<and> (getConfidenceColor conv (JNumber (Finite c)) = str ''text-red-600''
      \<longleftrightarrow> c < literal_0_6)"
  using literal_order by (auto simp: getConfidenceColor_def str_def)

text \<open>
  The doubles from 1/2 on are multiples of 2^-53. On them the first threshold is the
  comparison with 8/10; the second is the comparison with 6/10 but for the double that
  the literal \<open>0.6\<close> denotes, which lies below 6/10 and is banded yellow.
\<close>

lemma literal_0_8_on_doubles:
  fixes k :: nat
  shows "real k / 2 ^ 53 \<ge> literal_0_8 \<longleftrightarrow> real k / 2 ^ 53 \<ge> 8 / 10"
proof -
  have a: "real k / 2 ^ 53 \<ge> literal_0_8 \<longleftrightarrow> k \<ge> 7205759403792794"
    by (simp add: literal_0_8_def field_simps)
  have "real k / 2 ^ 53 \<ge> 8 / 10 \<longleftrightarrow> real (10 * k) \<ge> real 72057594037927936"
    by (simp add: field_simps)
  also have "\<dots> \<longleftrightarrow> 10 * k \<ge> 72057594037927936"
    by (simp only: of_nat_le_iff)
  also have "\<dots> \<longleftrightarrow> k \<ge> 7205759403792794"
    by presburger
  finally show ?thesis
    using a by simp
qed

lemma literal_0_6_on_doubles:
  fixes k :: nat
  shows "real k / 2 ^ 53 \<ge> literal_0_6
         \<longleftrightarrow> real k / 2 ^ 53 \<ge> 6 / 10 \<or> real k / 2 ^ 53 = literal_0_6"
proof -
  have a: "real k / 2 ^ 53 \<ge> literal_0_6 \<longleftrightarrow> k \<ge> 5404319552844595"
    by (simp add: literal_0_6_def field_simps)
  have b: "real k / 2 ^ 53 = literal_0_6 \<longleftrightarrow> k = 5404319552844595"
    by (simp add: literal_0_6_def field_simps)
  have "real k / 2 ^ 53 \<ge> 6 / 10 \<longleftrightarrow> real (10 * k) \<ge> real 54043195528445952"
    by (simp add: field_simps)
  also have "\<dots> \<longleftrightarrow> 10 * k \<ge> 54043195528445952"
    by (simp only: of_nat_le_iff)
  also have "\<dots> \<longleftrightarrow> k \<ge> 5404319552844596"
    by presburger
  finally show ?thesis
    using a b by auto
qed

lemma nearest_double_to_0_6_is_yellow:
  "literal_0_6 < 6 / 10
   \<and> getConfidenceColor conv (JNumber (Finite literal_0_6)) = str ''text-yellow-600''"
  using literal_order
  by (simp add: getConfidenceColor_def) (simp add: literal_0_6_def)

lemma missing_confidence_is_red:
  "getConfidenceColor conv JUndefined = str ''text-red-600''
   \<and> getConfidenceColor conv JNull = str ''text-red-600''
   \<and> getConfidenceColor conv (JNumber NaN) = str ''text-red-600''"
  by (simp add: getConfidenceColor_def literal_0_6_def literal_0_8_def)

end
